theory Spec2Isabelle
  imports Complex_Main "HOL-Library.Sublist"
begin

section \<open>Python values\<close>

text \<open>
  Python floats are modelled by exact rationals and Python ints by \<open>int\<close> or \<open>nat\<close>.
  A string is a \<open>char list\<close>, one \<open>char\<close> for each character that Python's \<open>len\<close>
  counts. The non-ASCII characters of the source's literals are written by their character
  codes. An exception is a value: a computation that may raise returns \<open>py_error + 'a\<close>.
\<close>

datatype py_error =
  ZeroDivisionError | IndexError | KeyError | TypeError | ValueError
  | RequestException | Timeout | OtherException

text \<open>Sequencing of computations that may raise: the first exception leaves the block.\<close>

definition bind_err :: "py_error + 'a \<Rightarrow> ('a \<Rightarrow> py_error + 'b) \<Rightarrow> py_error + 'b" where
  "bind_err m f = (case m of Inl e \<Rightarrow> Inl e | Inr x \<Rightarrow> f x)"

text \<open>A \<open>for\<close> loop whose body may raise, updating the loop's variables \<open>s\<close>.\<close>

fun for_err :: "('s \<Rightarrow> 'a \<Rightarrow> py_error + 's) \<Rightarrow> 's \<Rightarrow> 'a list \<Rightarrow> py_error + 's" where
  "for_err body s [] = Inr s"
| "for_err body s (x # xs) = bind_err (body s x) (\<lambda>s'. for_err body s' xs)"

text \<open>\<open>a / b\<close> on numbers and \<open>xs[0]\<close> on a list.\<close>

definition py_div :: "rat \<Rightarrow> rat \<Rightarrow> py_error + rat" where
  "py_div a b = (if b = 0 then Inl ZeroDivisionError else Inr (a / b))"

definition first_item :: "'a list \<Rightarrow> py_error + 'a" where
  "first_item xs = (case xs of [] \<Rightarrow> Inl IndexError | x # _ \<Rightarrow> Inr x)"

text \<open>\<open>int(x)\<close> on a float truncates towards zero.\<close>

definition py_int :: "rat \<Rightarrow> int" where
  "py_int x = (if 0 \<le> x then \<lfloor>x\<rfloor> else - \<lfloor>- x\<rfloor>)"

subsection \<open>Strings\<close>

definition nl :: string where
  "nl = [CHR 0x0A]"

text \<open>\<open>sep.join(lines)\<close>\<close>

fun join :: "string \<Rightarrow> string list \<Rightarrow> string" where
  "join sep [] = []"
| "join sep [l] = l"
| "join sep (l # ls) = l @ sep @ join sep ls"

text \<open>The format specification \<open>:<n\<close>: pad with spaces on the right up to width \<open>n\<close>.\<close>

definition ljust :: "nat \<Rightarrow> string \<Rightarrow> string" where
  "ljust n s = s @ replicate (n - length s) CHR '' ''"

text \<open>\<open>s * n\<close> on a string.\<close>

definition repeat_str :: "string \<Rightarrow> nat \<Rightarrow> string" where
  "repeat_str s n = concat (replicate n s)"

definition lower_char :: "char \<Rightarrow> char" where
  "lower_char c =
     (let n = (of_char c :: nat)
      in if of_char CHR ''A'' \<le> n \<and> n \<le> of_char CHR ''Z'' then char_of (n + 32) else c)"

definition lower :: "string \<Rightarrow> string" where
  "lower s = map lower_char s"

definition upper_char :: "char \<Rightarrow> char" where
  "upper_char c =
     (let n = (of_char c :: nat)
      in if of_char CHR ''a'' \<le> n \<and> n \<le> of_char CHR ''z'' then char_of (n - 32) else c)"

definition upper :: "string \<Rightarrow> string" where
  "upper s = map upper_char s"

text \<open>Python's \<open>keyword in text\<close> on strings: the keyword occurs as a contiguous block.\<close>

fun contains :: "string \<Rightarrow> string \<Rightarrow> bool" where
  "contains kw [] = (kw = [])"
| "contains kw (c # cs) = (prefix kw (c # cs) \<or> contains kw cs)"

text \<open>
  \<open>text.split(sep)\<close> for a non-empty separator: the text is scanned from the left,
  \<open>cur\<close> is the piece being read and \<open>skip\<close> counts the characters of a separator
  that has just been matched and is still to be passed over.
\<close>

fun split_from :: "string \<Rightarrow> nat \<Rightarrow> string \<Rightarrow> string \<Rightarrow> string list" where
  "split_from sep skip cur [] = [cur]"
| "split_from sep skip cur (c # cs) =
     (if 0 < skip then split_from sep (skip - 1) cur cs
      else if prefix sep (c # cs) then cur # split_from sep (length sep - 1) [] cs
      else split_from sep 0 (cur @ [c]) cs)"

definition split :: "string \<Rightarrow> string \<Rightarrow> string list" where
  "split sep s = split_from sep 0 [] s"

text \<open>\<open>str(n)\<close> for a non-negative integer.\<close>

definition digit_char :: "nat \<Rightarrow> char" where
  "digit_char d = char_of (of_char CHR ''0'' + d)"

fun digits :: "nat \<Rightarrow> nat \<Rightarrow> string" where
  "digits 0 n = []"
| "digits (Suc fuel) n =
     (if n < 10 then [digit_char n] else digits fuel (n div 10) @ [digit_char (n mod 10)])"

definition str_nat :: "nat \<Rightarrow> string" where
  "str_nat n = digits (Suc n) n"

text \<open>
  Renderings of the Python library that the explainer only passes on: \<open>str\<close> of a date,
  the day name of a date (\<open>strftime("%A")\<close>), \<open>str\<close> of a number and the format
  \<open>:.1f\<close>. They are parameters of the model.
\<close>

type_synonym date = int

record pylib =
  str_date :: "date \<Rightarrow> string"
  day_name :: "date \<Rightarrow> string"
  str_num :: "rat \<Rightarrow> string"
  format_1f :: "rat \<Rightarrow> string"

section \<open>Data model\<close>

text \<open>
  Modelled from the spec: the classes of the packages \<open>models\<close> (Employee, Store, Shift,
  Assignment, Schedule, Violation, ApprovalRequest, ComplianceResult), which the explainer
  imports and whose source is not part of the files at hand. The fields are those the spec's
  data model lists and the explainer reads. An enumeration member (employee type, station,
  store type, constraint type) is represented by its \<open>value\<close> string, the only thing the
  explainer reads of it.
\<close>

record Employee =
  emp_id :: nat
  emp_name :: string
  employee_type :: string
  qualified_stations :: "string list"
  weekly_hours_target :: "rat \<times> rat"

record Store =
  store_name :: string
  store_type :: string
  active_stations :: "string list"

record Shift =
  shift_code :: string
  hours :: rat

record Assignment =
  employee_id :: nat
  on_date :: date
  shift :: Shift
  station :: string

record Schedule =
  assignments :: "Assignment list"
  first_date :: date
  last_date :: date

record Violation =
  description :: string
  severity :: nat
  suggestions :: "string list"

record ApprovalRequest =
  constraint_type :: string
  affected_date :: "date option"
  request_description :: string
  details :: "string \<rightharpoonup> string"

record ComplianceResult =
  violations :: "Violation list"
  warnings :: "Violation list"
  pending_approvals :: "ApprovalRequest list"
  score :: rat
  gini_coefficient :: rat
  is_compliant :: bool

text \<open>Modelled from the spec: the queries of Schedule (lookup by date, by station and by
  employee, and the aggregate summary).\<close>

definition get_dates_in_range :: "Schedule \<Rightarrow> date list" where
  "get_dates_in_range s = [first_date s .. last_date s]"

definition get_assignments_by_date :: "Schedule \<Rightarrow> date \<Rightarrow> Assignment list" where
  "get_assignments_by_date s d = filter (\<lambda>a. on_date a = d) (assignments s)"

definition get_assignments_by_station :: "Schedule \<Rightarrow> string \<Rightarrow> Assignment list" where
  "get_assignments_by_station s st = filter (\<lambda>a. station a = st) (assignments s)"

definition get_assignments_by_employee :: "Schedule \<Rightarrow> nat \<Rightarrow> Assignment list" where
  "get_assignments_by_employee s e = filter (\<lambda>a. employee_id a = e) (assignments s)"

record summary_data =
  date_range :: string
  total_assignments :: nat
  unique_employees :: nat
  total_hours :: rat
  days :: nat

definition summary :: "pylib \<Rightarrow> Schedule \<Rightarrow> summary_data" where
  "summary L s =
     \<lparr>date_range = str_date L (first_date s) @ '' to '' @ str_date L (last_date s),
      total_assignments = length (assignments s),
      unique_employees = length (remdups (map employee_id (assignments s))),
      total_hours = sum_list (map (\<lambda>a. hours (shift a)) (assignments s)),
      days = length (get_dates_in_range s)\<rparr>"

section \<open>The explainer agent (agents/explainer.py)\<close>

subsection \<open>Characters of the source's literals\<close>

definition bullet :: string where
  "bullet = [CHR 0xE2, CHR 0x80, CHR 0xA2]"

definition box_vl :: string where
  "box_vl = [CHR 0xE2, CHR 0x94, CHR 0xA4]"

definition box_h :: string where
  "box_h = [CHR 0xE2, CHR 0x94, CHR 0x80]"

definition box_v :: string where
  "box_v = [CHR 0xE2, CHR 0x94, CHR 0x82]"

definition box_dr :: string where
  "box_dr = [CHR 0xE2, CHR 0x94, CHR 0x8C]"

definition box_dl :: string where
  "box_dl = [CHR 0xE2, CHR 0x94, CHR 0x90]"

definition box_ur :: string where
  "box_ur = [CHR 0xE2, CHR 0x94, CHR 0x94]"

definition box_ul :: string where
  "box_ul = [CHR 0xE2, CHR 0x94, CHR 0x98]"

definition box_vr :: string where
  "box_vr = [CHR 0xE2, CHR 0x94, CHR 0x9C]"

definition white_square :: string where
  "white_square = [CHR 0xE2, CHR 0x96, CHR 0xA1]"

definition full_block :: string where
  "full_block = [CHR 0xE2, CHR 0x96, CHR 0x88]"

definition scales :: string where
  "scales = [CHR 0xE2, CHR 0x9A, CHR 0x96, CHR 0xEF, CHR 0xB8, CHR 0x8F]"

definition warning_sign :: string where
  "warning_sign = [CHR 0xE2, CHR 0x9A, CHR 0xA0, CHR 0xEF, CHR 0xB8, CHR 0x8F]"

definition cross_mark :: string where
  "cross_mark = [CHR 0xE2, CHR 0x9D, CHR 0x8C]"

definition heavy_check :: string where
  "heavy_check = [CHR 0xE2, CHR 0x9C, CHR 0x85]"

definition check_mark :: string where
  "check_mark = [CHR 0xE2, CHR 0x9C, CHR 0x93]"

definition busts :: string where
  "busts = [CHR 0xF0, CHR 0x9F, CHR 0x91, CHR 0xA5]"

definition chart_up :: string where
  "chart_up = [CHR 0xF0, CHR 0x9F, CHR 0x93, CHR 0x88]"

definition clipboard :: string where
  "clipboard = [CHR 0xF0, CHR 0x9F, CHR 0x93, CHR 0x8B]"

definition bar_chart :: string where
  "bar_chart = [CHR 0xF0, CHR 0x9F, CHR 0x93, CHR 0x8A]"

definition memo :: string where
  "memo = [CHR 0xF0, CHR 0x9F, CHR 0x93, CHR 0x9D]"

definition light_bulb :: string where
  "light_bulb = [CHR 0xF0, CHR 0x9F, CHR 0x92, CHR 0xA1]"

definition magnifier :: string where
  "magnifier = [CHR 0xF0, CHR 0x9F, CHR 0x94, CHR 0x8D]"

subsection \<open>The outside world and the agent's state\<close>

text \<open>\<open>defaultdict(list)\<close>: a dictionary in insertion order, \<open>d[k].append(v)\<close>.\<close>

fun group_append :: "'k \<Rightarrow> 'v \<Rightarrow> ('k \<times> 'v list) list \<Rightarrow> ('k \<times> 'v list) list" where
  "group_append k v [] = [(k, [v])]"
| "group_append k v ((k', vs) # rest) =
     (if k = k' then (k', vs @ [v]) # rest else (k', vs) # group_append k v rest)"

text \<open>\<open>enumerate(xs, 1)\<close>\<close>

definition enumerate1 :: "'a list \<Rightarrow> (nat \<times> 'a) list" where
  "enumerate1 xs = zip [1 ..< Suc (length xs)] xs"

record chat_message =
  role :: string
  content :: string

record payload =
  p_model :: string
  p_messages :: "chat_message list"
  p_max_tokens :: nat
  p_temperature :: rat

text \<open>
  An HTTP response: its status code, and what evaluating
  \<open>response.json()["choices"][0]["message"]["content"]\<close> on it gives, which is an
  exception (a body that is not JSON, a missing key, an empty list) or the content, a string
  or null, as the annotation \<open>Optional[str]\<close> of \<open>chat_completion\<close> has it.
\<close>

record Response =
  status_code :: int
  message_content :: "py_error + string option"

record OpenRouterClient =
  api_key :: string
  base_url :: string
  call_count :: nat

text \<open>
  Modelled from the spec: the module \<open>config\<close> (the configuration values, the API key
  getter, the global rate limiter and the retry decorator), whose source is not part of the
  files at hand. The external service and the rate limiter are oracles: \<open>acquire n\<close> is
  the answer of the \<open>n\<close>-th call of \<open>llm_rate_limiter.acquire()\<close>, and
  \<open>make_request n p\<close> is the outcome of the \<open>n\<close>-th call of the retrying
  \<open>_make_request\<close> with payload \<open>p\<close>: a response, or the exception that is left
  when the retries are used up.
\<close>

record environment =
  lib :: pylib
  get_api_key :: "string option"
  cfg_base_url :: string
  cfg_primary_model :: string
  cfg_fallback_model :: string
  cfg_max_tokens :: nat
  cfg_temperature :: rat
  cfg_retry_delay :: rat
  acquire :: "nat \<Rightarrow> bool"
  make_request :: "nat \<Rightarrow> payload \<Rightarrow> py_error + Response"

record message =
  sender :: string
  receiver :: string
  msg_type :: string
  content_type :: string
  content_explanations :: "string \<rightharpoonup> string"

text \<open>
  The mutable state a call of the explainer can reach: the Schedule and the ComplianceResult
  it is handed (Python passes the objects themselves, so they are fields of the heap), the
  attributes of the agent, the number of calls the global rate limiter has answered, and, as
  modelled from the spec's send and log contract of an agent, the log, the message bus and
  the pauses taken.
\<close>

record heap =
  schedule :: Schedule
  compliance_result :: ComplianceResult
  use_llm :: bool
  llm_client :: "OpenRouterClient option"
  primary_model :: string
  fallback_model :: string
  max_tokens :: nat
  temperature :: rat
  limiter_calls :: nat
  logged :: "(string \<times> string) list"
  bus :: "message list"
  slept :: "rat list"

definition log_msg :: "string \<Rightarrow> string \<Rightarrow> heap \<Rightarrow> heap" where
  "log_msg msg level h = h\<lparr>logged := logged h @ [(level, msg)]\<rparr>"

definition send :: "string \<Rightarrow> string \<Rightarrow> (string \<rightharpoonup> string) \<Rightarrow> string \<Rightarrow> heap \<Rightarrow> heap" where
  "send mtype ctype expl rcv h =
     h\<lparr>bus := bus h @ [\<lparr>sender = ''Explainer'', receiver = rcv, msg_type = mtype,
                          content_type = ctype, content_explanations = expl\<rparr>]\<rparr>"

definition sleep :: "rat \<Rightarrow> heap \<Rightarrow> heap" where
  "sleep d h = h\<lparr>slept := slept h @ [d]\<rparr>"

subsection \<open>OpenRouterClient\<close>

text \<open>
  \<open>chat_completion\<close> of the client \<open>client\<close>. The \<open>try\<close> block is the
  computation \<open>attempt\<close>; \<open>except Exception\<close> turns any exception into None.
\<close>

definition chat_completion ::
  "environment \<Rightarrow> OpenRouterClient \<Rightarrow> chat_message list \<Rightarrow> string \<Rightarrow> nat \<Rightarrow> rat \<Rightarrow> heap
     \<Rightarrow> string option \<times> heap" where
  "chat_completion E client messages model mt temp h =
     (let n = limiter_calls h;
          h1 = h\<lparr>limiter_calls := Suc n\<rparr>
      in if \<not> acquire E n then (None, h1)
         else
           (let client1 = client\<lparr>call_count := call_count client + 1\<rparr>;
                h2 = h1\<lparr>llm_client := Some client1\<rparr>;
                attempt =
                  bind_err
                    (make_request E (call_count client1)
                       \<lparr>p_model = model, p_messages = messages,
                        p_max_tokens = mt, p_temperature = temp\<rparr>)
                    (\<lambda>response.
                       if status_code response = 200 then message_content response
                       else if status_code response = 429 then Inr None
                       else Inr None)
            in case attempt of
                 Inl e \<Rightarrow> (None, h2)
               | Inr text \<Rightarrow> (text, h2)))"

subsection \<open>ExplainerAgent\<close>

definition init_llm_client :: "environment \<Rightarrow> heap \<Rightarrow> heap" where
  "init_llm_client E h =
     (case get_api_key E of
        Some key \<Rightarrow>
          if key \<noteq> [] then
            log_msg (''OpenRouter client initialized (model: '' @ primary_model h @ '')'') ''info''
              (h\<lparr>llm_client := Some \<lparr>api_key = key, base_url = cfg_base_url E, call_count = 0\<rparr>\<rparr>)
          else
            (log_msg ''Set OPENROUTER_API_KEY in config.py or environment variable'' ''warning''
              (log_msg ''No OpenRouter API key found - using template-based explanations''
                 ''warning'' h))\<lparr>use_llm := False\<rparr>
      | None \<Rightarrow>
          (log_msg ''Set OPENROUTER_API_KEY in config.py or environment variable'' ''warning''
            (log_msg ''No OpenRouter API key found - using template-based explanations''
               ''warning'' h))\<lparr>use_llm := False\<rparr>)"

text \<open>\<open>__init__\<close>, on a heap that holds the objects and the bus already.\<close>

definition init :: "environment \<Rightarrow> bool \<Rightarrow> heap \<Rightarrow> heap" where
  "init E use h =
     (let h1 = h\<lparr>use_llm := use, llm_client := None,
                 primary_model := cfg_primary_model E, fallback_model := cfg_fallback_model E,
                 max_tokens := cfg_max_tokens E, temperature := cfg_temperature E\<rparr>
      in if use then init_llm_client E h1 else h1)"

function call_llm :: "environment \<Rightarrow> string \<Rightarrow> bool \<Rightarrow> heap \<Rightarrow> string option \<times> heap" where
  "call_llm E prompt use_fallback h =
     (case llm_client h of
        None \<Rightarrow> (None, h)
      | Some client \<Rightarrow>
          (let model = (if use_fallback then fallback_model h else primary_model h);
               messages =
                 [\<lparr>role = ''system'',
                   content = ''You are a helpful assistant that explains restaurant scheduling decisions clearly and concisely.''\<rparr>,
                  \<lparr>role = ''user'', content = prompt\<rparr>];
               (result, h1) = chat_completion E client messages model (max_tokens h) (temperature h) h
           in if result = None \<and> \<not> use_fallback then
                call_llm E prompt True
                  (sleep (cfg_retry_delay E)
                     (log_msg (''Primary model failed, trying fallback: '' @ fallback_model h1)
                        ''warning'' h1))
              else (result, h1)))"
  by pat_completeness auto
termination
  by (relation "measure (\<lambda>(E, prompt, use_fallback, h). if use_fallback then 0 else 1)") auto

declare call_llm.simps [simp del]

definition llm_generate_summary ::
  "environment \<Rightarrow> summary_data \<Rightarrow> ComplianceResult \<Rightarrow> Store \<Rightarrow> heap \<Rightarrow> string option \<times> heap" where
  "llm_generate_summary E summary_data cr store h =
     (let L = lib E;
          prompt = concat
            [nl, ''Generate a brief, professional executive summary for this restaurant schedule:'', nl,
             nl, ''Store: '', store_name store, '' ('', store_type store, '')'', nl,
             ''Period: '', date_range summary_data, nl,
             ''Total Assignments: '', str_nat (total_assignments summary_data), nl,
             ''Employees: '', str_nat (unique_employees summary_data), nl,
             ''Total Hours: '', str_num L (total_hours summary_data), nl,
             ''Compliance Score: '', str_num L (score cr), ''/100'', nl,
             ''Violations: '', str_nat (length (violations cr)), '' hard, '',
               str_nat (length (warnings cr)), '' soft'', nl,
             nl, ''Keep it concise (3-4 sentences) and highlight key achievements or concerns.'', nl,
             ''Start with the most important information.'', nl]
      in call_llm E prompt False h)"

text \<open>The template-based summary, the part of \<open>_generate_summary\<close> after the LLM attempt.\<close>

definition template_summary :: "pylib \<Rightarrow> summary_data \<Rightarrow> ComplianceResult \<Rightarrow> Store \<Rightarrow> string" where
  "template_summary L summary_data cr store =
     (let status = (if is_compliant cr then (heavy_check @ '' COMPLIANT'') else (warning_sign @ '' NEEDS REVIEW''));
          pending_note =
            (if pending_approvals cr \<noteq> [] then
               (nl @ bullet @ '' '' @ clipboard @ '' Pending Manager Approval: '') @ str_nat (length (pending_approvals cr))
             else [])
      in concat
           [nl, (clipboard @ '' SCHEDULE SUMMARY - ''), store_name store, nl,
            repeat_str ''='' 50, nl,
            nl, ''Period: '', date_range summary_data, nl,
            ''Status: '', status, '' (Score: '', format_1f L (score cr), ''/100)'', nl,
            nl, (bar_chart @ '' Key Metrics:''), nl,
            (bullet @ '' Total Assignments: ''), str_nat (total_assignments summary_data), nl,
            (bullet @ '' Employees Scheduled: ''), str_nat (unique_employees summary_data), nl,
            (bullet @ '' Total Hours: ''), format_1f L (total_hours summary_data), nl,
            (bullet @ '' Days Covered: ''), str_nat (days summary_data), nl,
            nl, (chart_up @ '' Compliance:''), nl,
            (bullet @ '' Hard Violations: ''), str_nat (length (violations cr)), nl,
            (bullet @ '' Soft Warnings: ''), str_nat (length (warnings cr)), pending_note, nl,
            nl, ''This schedule was automatically generated by the Multi-Agent '', nl,
            ''Scheduling System, optimizing for Fair Work Act compliance,'', nl,
            ''peak period coverage, and employee preferences.'', nl])"

definition generate_summary ::
  "environment \<Rightarrow> Schedule \<Rightarrow> ComplianceResult \<Rightarrow> Store \<Rightarrow> heap \<Rightarrow> string \<times> heap" where
  "generate_summary E sched cr store h =
     (let summary_data = summary (lib E) sched
      in if use_llm h \<and> llm_client h \<noteq> None then
           (let (llm_summary, h1) = llm_generate_summary E summary_data cr store h
            in case llm_summary of
                 Some text \<Rightarrow>
                   if text \<noteq> [] then (text, h1)
                   else (template_summary (lib E) summary_data cr store, h1)
               | None \<Rightarrow> (template_summary (lib E) summary_data cr store, h1))
         else (template_summary (lib E) summary_data cr store, h))"

definition generate_coverage_analysis :: "pylib \<Rightarrow> Schedule \<Rightarrow> Store \<Rightarrow> py_error + string" where
  "generate_coverage_analysis L sched store =
     (let lines0 = [(nl @ bar_chart @ '' COVERAGE ANALYSIS''), repeat_str ''='' 50];
          day_coverage =
            foldl (\<lambda>dc target_date.
                     group_append (day_name L target_date)
                       (length (get_assignments_by_date sched target_date)) dc)
              [] (get_dates_in_range sched);
          lines1 = lines0 @ [(nl @ ''Average Daily Coverage by Day of Week:'')]
      in bind_err
           (for_err
              (\<lambda>lines item. case item of (day, counts) \<Rightarrow>
                 bind_err
                   (if counts \<noteq> [] then
                      py_div (of_nat (sum_list counts)) (of_nat (length counts))
                    else Inr 0)
                   (\<lambda>avg.
                      let bar = repeat_str full_block (nat (py_int (avg / 2)))
                      in Inr (lines @
                           [''  '' @ take 3 day @ '': '' @ bar @ '' ('' @ format_1f L avg
                              @ '' staff)''])))
              lines1 day_coverage)
           (\<lambda>lines2.
              let lines3 = lines2 @ [(nl @ ''Coverage by Station:'')];
                  lines4 =
                    foldl (\<lambda>lines st.
                             lines @
                               [''  '' @ st @ '': ''
                                  @ str_nat (length (get_assignments_by_station sched st))
                                  @ '' shifts''])
                      lines3 (active_stations store)
              in Inr (join nl lines4)))"

record employee_row =
  row_name :: string
  row_shifts :: nat
  row_hours :: rat
  row_min :: rat
  row_max :: rat

text \<open>The fortnightly hours of an employee: \<open>sum(a.shift.hours for a in assignments)\<close>.\<close>

definition scheduled_hours :: "Schedule \<Rightarrow> Employee \<Rightarrow> rat" where
  "scheduled_hours sched employee =
     sum_list (map (\<lambda>a. hours (shift a)) (get_assignments_by_employee sched (emp_id employee)))"

text \<open>The status mark of a row of the employee summary.\<close>

definition row_status :: "employee_row \<Rightarrow> string" where
  "row_status emp =
     (if row_min emp \<le> row_hours emp / 2 \<and> row_hours emp / 2 \<le> row_max emp
      then check_mark else ''!'')"

definition generate_employee_summary :: "pylib \<Rightarrow> Schedule \<Rightarrow> Employee list \<Rightarrow> string" where
  "generate_employee_summary L sched employees =
     (let lines0 = [(nl @ busts @ '' EMPLOYEE ASSIGNMENTS''), repeat_str ''='' 50];
          by_type =
            foldl (\<lambda>bt employee.
                     let asgs = get_assignments_by_employee sched (emp_id employee);
                         hrs = sum_list (map (\<lambda>a. hours (shift a)) asgs)
                     in group_append (employee_type employee)
                          \<lparr>row_name = emp_name employee,
                           row_shifts = length asgs,
                           row_hours = hrs,
                           row_min = fst (weekly_hours_target employee),
                           row_max = snd (weekly_hours_target employee)\<rparr> bt)
              [] employees;
          lines1 =
            foldl (\<lambda>lines item. case item of (emp_type, emp_list) \<Rightarrow>
                     foldl (\<lambda>lines emp.
                              lines @
                                [''  '' @ row_status emp @ '' '' @ row_name emp @ '': ''
                                   @ str_nat (row_shifts emp) @ '' shifts, ''
                                   @ format_1f L (row_hours emp) @ ''h/2wk''])
                       (lines @ [nl @ emp_type @ '':''])
                       (take 5 (sort_key (\<lambda>x. - row_hours x) emp_list)))
              lines0 by_type
      in join nl lines1)"

definition generate_compliance_notes :: "ComplianceResult \<Rightarrow> string" where
  "generate_compliance_notes cr =
     (let lines0 = [(nl @ scales @ '' COMPLIANCE NOTES (Fair Work Act)''), repeat_str ''='' 50];
          lines1 =
            (if is_compliant cr then
               lines0 @
                 [(nl @ heavy_check @ '' All hard constraints satisfied:''),
                  (''  '' @ bullet @ '' Maximum weekly hours respected''),
                  (''  '' @ bullet @ '' Minimum 10-hour rest between shifts''),
                  (''  '' @ bullet @ '' Maximum 6 consecutive working days''),
                  (''  '' @ bullet @ '' Skills matched to station requirements'')]
             else
               foldl (\<lambda>lines v. lines @ [(''  '' @ cross_mark @ '' '') @ description v])
                 (lines0 @
                    [(nl @ warning_sign @ '' '') @ str_nat (length (violations cr))
                       @ '' violations require attention:''])
                 (take 5 (violations cr)));
          lines2 =
            (if warnings cr \<noteq> [] then
               foldl (\<lambda>lines w. lines @ [(''  '' @ bullet @ '' '') @ description w])
                 (lines1 @
                    [(nl @ memo @ '' '') @ str_nat (length (warnings cr))
                       @ '' optimization opportunities:''])
                 (take 3 (warnings cr))
             else lines1)
      in join nl lines2)"

text \<open>The test of the first loop of \<open>_generate_recommendations\<close>; the float \<open>0.8\<close> is the
  rational \<open>4/5\<close>.\<close>

definition needs_more_shifts :: "Schedule \<Rightarrow> Employee \<Rightarrow> bool" where
  "needs_more_shifts sched employee =
     (let asgs = get_assignments_by_employee sched (emp_id employee);
          hrs = sum_list (map (\<lambda>a. hours (shift a)) asgs);
          min_hours = fst (weekly_hours_target employee) * 2
      in hrs < min_hours * (4 / 5))"

definition generate_recommendations ::
  "pylib \<Rightarrow> Schedule \<Rightarrow> ComplianceResult \<Rightarrow> Employee list \<Rightarrow> py_error + string" where
  "generate_recommendations L sched cr employees =
     (let lines0 = [(nl @ light_bulb @ '' RECOMMENDATIONS''), repeat_str ''='' 50];
          recs0 =
            foldl (\<lambda>recs employee.
                     let asgs = get_assignments_by_employee sched (emp_id employee);
                         hrs = sum_list (map (\<lambda>a. hours (shift a)) asgs);
                         min_hours = fst (weekly_hours_target employee) * 2
                     in if needs_more_shifts sched employee then
                          recs @
                            [''Consider adding shifts for '' @ emp_name employee @ '' (''
                               @ format_1f L hrs @ ''/'' @ str_num L min_hours @ ''h target)'']
                        else recs)
              [] employees
      in bind_err
           (for_err
              (\<lambda>recs violation.
                 if suggestions violation \<noteq> [] then
                   bind_err (first_item (suggestions violation)) (\<lambda>s. Inr (recs @ [s]))
                 else Inr recs)
              recs0 (take 2 (warnings cr)))
           (\<lambda>recs1.
              let recs2 =
                    (if recs1 = [] then
                       recs1 @ [''Schedule is well-optimized. No immediate actions needed.'']
                     else recs1);
                  lines1 =
                    foldl (\<lambda>lines item. case item of (i, rec) \<Rightarrow>
                             lines @ [''  '' @ str_nat i @ ''. '' @ rec])
                      lines0 (enumerate1 (take 5 recs2))
              in Inr (join nl lines1)))"

definition explain_issues :: "ComplianceResult \<Rightarrow> py_error + string" where
  "explain_issues cr =
     (let lines0 = [(nl @ magnifier @ '' DETAILED ISSUE ANALYSIS''), repeat_str ''='' 50]
      in bind_err
           (if violations cr \<noteq> [] then
              for_err
                (\<lambda>lines v.
                   let lines' = lines @ [(nl @ ''  Issue: '') @ description v,
                                        ''  Severity: '' @ str_nat (severity v) @ ''/10'']
                   in if suggestions v \<noteq> [] then
                        bind_err (first_item (suggestions v))
                          (\<lambda>s. Inr (lines' @ [''  Suggested Fix: '' @ s]))
                      else Inr lines')
                (lines0 @ [(nl @ cross_mark @ '' CRITICAL ISSUES (Must Fix):'')]) (violations cr)
            else Inr lines0)
           (\<lambda>lines1.
              bind_err
                (if warnings cr \<noteq> [] then
                   for_err
                     (\<lambda>lines w.
                        let lines' = lines @ [(nl @ ''  Warning: '') @ description w]
                        in if suggestions w \<noteq> [] then
                             bind_err (first_item (suggestions w))
                               (\<lambda>s. Inr (lines' @ [''  Suggestion: '' @ s]))
                           else Inr lines')
                     (lines1 @ [(nl @ warning_sign @ '' WARNINGS (Should Address):'')]) (take 5 (warnings cr))
                 else Inr lines1)
                (\<lambda>lines2. Inr (join nl lines2))))"

definition generate_manager_advice ::
  "environment \<Rightarrow> ApprovalRequest list \<Rightarrow> heap \<Rightarrow> string option \<times> heap" where
  "generate_manager_advice E pending h =
     (let approval_text =
            join nl
              (map (\<lambda>a. ''- '' @ request_description a @ '' on ''
                          @ (case affected_date a of
                               None \<Rightarrow> ''None''
                             | Some d \<Rightarrow> str_date (lib E) d))
                 (take 3 pending));
          prompt = concat
            [nl, (''You are an assistant helping a McDonald'' @ [CHR 0x27] @ ''s restaurant manager with scheduling decisions.''), nl,
             nl, ''The following staffing gaps could not be automatically filled:'', nl,
             approval_text, nl,
             nl, ''Provide a brief (2-3 sentences), practical recommendation considering:'', nl,
             ''- This is a fast-food restaurant with variable customer traffic'', nl,
             ''- Staff safety and legal compliance are top priorities'', nl,
             ''- Cross-training has already been attempted'', nl,
             nl, ''Be specific and actionable.'', nl]
      in call_llm E prompt False h)"

text \<open>The two \<open>while\<close> loops that cut a long text into pieces: they return the lines and
  what is left of the text.\<close>

function wrap_description :: "string list \<Rightarrow> string \<Rightarrow> string list \<times> string" where
  "wrap_description lines desc =
     (if 45 < length desc then
        wrap_description (lines @ [(box_v @ ''   '') @ ljust 45 (take 45 desc) @ ('' '' @ box_v)]) (drop 45 desc)
      else (lines, desc))"
  by pat_completeness auto
termination
  by (relation "measure (\<lambda>(lines, desc). length desc)") auto

declare wrap_description.simps [simp del]

function wrap_reason :: "string list \<Rightarrow> string \<Rightarrow> string list \<times> string" where
  "wrap_reason lines line =
     (if 43 < length line then
        wrap_reason (lines @ [(box_v @ ''   '' @ bullet @ '' '') @ take 43 line]) (drop 43 line)
      else (lines, line))"
  by pat_completeness auto
termination
  by (relation "measure (\<lambda>(lines, line). length line)") auto

declare wrap_reason.simps [simp del]

text \<open>The fixed menu of decisions a manager is offered.\<close>

definition manager_options :: "string list" where
  "manager_options =
     [(box_v @ ''   '' @ white_square @ '' A) Accept understaffed shift             '' @ box_v),
      (box_v @ ''   '' @ white_square @ '' B) Authorize overtime for qualified staff'' @ box_v),
      (box_v @ ''   '' @ white_square @ '' C) Contact casual pool for coverage      '' @ box_v),
      (box_v @ ''   '' @ white_square @ '' D) Reduce station services temporarily   '' @ box_v),
      (box_v @ ''   '' @ white_square @ '' E) Request shift swap from other store   '' @ box_v)]"

text \<open>\<open>approval.details.get("escalation_reason", "Unable to resolve automatically")\<close>\<close>

definition escalation_reason :: "ApprovalRequest \<Rightarrow> string" where
  "escalation_reason approval =
     (case details approval ''escalation_reason'' of
        None \<Rightarrow> ''Unable to resolve automatically''
      | Some r \<Rightarrow> r)"

text \<open>The lines the body of the loop over the reason's sentences appends.\<close>

definition reason_lines :: "string list \<Rightarrow> string \<Rightarrow> string list" where
  "reason_lines lines reason =
     foldl (\<lambda>lines line.
              if line \<noteq> [] then
                (case wrap_reason lines line of
                   (lines', rest) \<Rightarrow> lines' @ [(box_v @ ''   '' @ bullet @ '' '') @ ljust 43 rest @ ('' '' @ box_v)])
              else lines)
       lines (split ''. '' reason)"

text \<open>The body of the loop over the pending approvals: the box of item \<open>i\<close>.\<close>

definition approval_item :: "pylib \<Rightarrow> string list \<Rightarrow> nat \<times> ApprovalRequest \<Rightarrow> string list" where
  "approval_item L lines item =
     (case item of (i, approval) \<Rightarrow>
        (let lines1 = lines @
               [box_dr @ repeat_str box_h 48 @ box_dl,
                (box_v @ '' ITEM '') @ str_nat i @ '': '' @ ljust 38 (upper (constraint_type approval)) @ ('' '' @ box_v),
                box_vr @ repeat_str box_h 48 @ box_vl,
                (box_v @ '' Date: '') @ ljust 41 (case affected_date approval of
                                       None \<Rightarrow> ''N/A''
                                     | Some d \<Rightarrow> str_date L d) @ ('' '' @ box_v),
                (box_v @ '' Description: '')];
             (lines2, desc) = wrap_description lines1 (request_description approval);
             lines3 = lines2 @ [(box_v @ ''   '') @ ljust 45 desc @ ('' '' @ box_v)];
             reason = escalation_reason approval;
             lines4 = lines3 @
               [box_vr @ repeat_str box_h 48 @ box_vl,
                (box_v @ '' Why approval needed:'')];
             lines5 = reason_lines lines4 reason;
             lines6 = lines5 @
               [box_vr @ repeat_str box_h 48 @ box_vl,
                (box_v @ '' MANAGER OPTIONS:'')]
               @ manager_options
               @ [box_ur @ repeat_str box_h 48 @ box_ul,
                  []]
         in lines6))"

definition generate_manager_approvals :: "environment \<Rightarrow> ComplianceResult \<Rightarrow> heap \<Rightarrow> string \<times> heap" where
  "generate_manager_approvals E cr h =
     (let lines0 =
            [(nl @ clipboard @ '' MANAGER APPROVAL REQUIRED''),
             repeat_str ''='' 50,
             (nl @ ''The following items could not be automatically resolved''),
             (''and require manager decision:'' @ nl)];
          lines1 = foldl (approval_item (lib E)) lines0 (enumerate1 (pending_approvals cr))
      in if use_llm h \<and> llm_client h \<noteq> None \<and> 0 < length (pending_approvals cr) then
           (let (advice, h1) = generate_manager_advice E (pending_approvals cr) h
            in case advice of
                 Some text \<Rightarrow>
                   if text \<noteq> [] then
                     (join nl (lines1 @ [(nl @ light_bulb @ '' SYSTEM RECOMMENDATION:''), text]), h1)
                   else (join nl lines1, h1)
               | None \<Rightarrow> (join nl lines1, h1))
         else (join nl lines1, h))"

text \<open>
  \<open>execute\<close>. The Schedule and the ComplianceResult it is called with are the heap's.
  An exception raised by a step leaves \<open>execute\<close> with the heap as it is then.
\<close>

definition execute ::
  "environment \<Rightarrow> Employee list \<Rightarrow> Store \<Rightarrow> heap \<Rightarrow> (py_error + (string \<rightharpoonup> string)) \<times> heap" where
  "execute E employees store h =
     (let sched = schedule h;
          cr = compliance_result h;
          h1 = log_msg ''Generating schedule explanations...'' ''info'' h;
          (summary_text, h2) = generate_summary E sched cr store h1
      in case generate_coverage_analysis (lib E) sched store of
           Inl e \<Rightarrow> (Inl e, h2)
         | Inr coverage_analysis \<Rightarrow>
        (let employee_assignments = generate_employee_summary (lib E) sched employees;
             compliance_notes = generate_compliance_notes cr
         in case generate_recommendations (lib E) sched cr employees of
              Inl e \<Rightarrow> (Inl e, h2)
            | Inr recommendations \<Rightarrow>
           (let explanations =
                  [''summary'' \<mapsto> summary_text,
                   ''coverage_analysis'' \<mapsto> coverage_analysis,
                   ''employee_assignments'' \<mapsto> employee_assignments,
                   ''compliance_notes'' \<mapsto> compliance_notes,
                   ''recommendations'' \<mapsto> recommendations]
            in case (if violations cr \<noteq> [] \<or> warnings cr \<noteq> [] then
                       bind_err (explain_issues cr)
                         (\<lambda>issues. Inr (explanations(''issues'' \<mapsto> issues)))
                     else Inr explanations) of
                 Inl e \<Rightarrow> (Inl e, h2)
               | Inr explanations1 \<Rightarrow>
              (let (explanations2, h3) =
                     (if pending_approvals cr \<noteq> [] then
                        (let (approvals, h') = generate_manager_approvals E cr h2
                         in (explanations1(''manager_approvals'' \<mapsto> approvals), h'))
                      else (explanations1, h2));
                   h4 = send ''DATA'' ''explanations'' explanations2 ''Coordinator'' h3;
                   h5 = log_msg ''Explanations generated'' ''success'' h4
               in (Inr explanations2, h5)))))"

section \<open>The results dashboard (streamlit_app.py)\<close>

text \<open>
  The result dictionary handed to the dashboard. Only the entries read by the panels
  modelled here are kept. An entry that the dashboard reads with \<open>dict.get\<close> is an
  option, since it may be absent.
\<close>

record compliance_report =
  report_score :: rat
  violation_count :: nat
  warning_count :: nat
  warning_details :: "string list option"
  fairness_gini :: "rat option"

record results =
  compliance :: "compliance_report option"
  elapsed_time :: rat

text \<open>What the user selected in the sidebar, together with the stored results.\<close>

record session =
  start_date :: date
  end_date :: date
  max_iterations :: nat
  session_results :: results

subsection \<open>Compliance verification panel\<close>

text \<open>The table of checks: name, passed flag, description.\<close>

definition compliance_checks :: "(string \<times> bool \<times> string) list" where
  "compliance_checks =
    [(''Australian Fair Work Act'', True, ''All shifts comply with legal requirements''),
     (''10-Hour Rest Periods'', True, ''Minimum rest between shifts enforced''),
     (''Maximum Hours Limits'', True,
        ''Full-time '' @ [CHR 0xE2, CHR 0x89, CHR 0xA4] @ ''38h, Part-time ''
          @ [CHR 0xE2, CHR 0x89, CHR 0xA4] @ ''32h, Casual '' @ [CHR 0xE2, CHR 0x89, CHR 0xA4]
          @ ''24h''),
     (''Skill Matching'', True, ''Employees assigned to trained stations only''),
     (''Minimum Staffing'', True, ''All stations have required coverage'')]"

datatype icon = Passed_icon | Warning_icon

record compliance_item =
  item_icon :: icon
  bg_class :: string
  check_name :: string
  item_description :: string

text \<open>The body of the loop over \<open>compliance_checks\<close>: one rendered item per check.\<close>

definition render_check :: "string \<times> bool \<times> string \<Rightarrow> compliance_item" where
  "render_check c = (case c of (name, passed, descr) \<Rightarrow>
     \<lparr>item_icon = (if passed then Passed_icon else Warning_icon),
      bg_class = (if passed then [] else ''warning''),
      check_name = name,
      item_description = descr\<rparr>)"

text \<open>The panel is rendered in the branch that has the results at hand; it never reads them.\<close>

definition compliance_panel :: "results \<Rightarrow> compliance_item list" where
  "compliance_panel res = map render_check compliance_checks"

subsection \<open>Coverage quality panel\<close>

text \<open>\<open>results.get('compliance', {}).get('warning_details', [])\<close>\<close>

definition warnings_list :: "results \<Rightarrow> string list" where
  "warnings_list res =
     (case compliance res of
        None \<Rightarrow> []
      | Some c \<Rightarrow> (case warning_details c of None \<Rightarrow> [] | Some ws \<Rightarrow> ws))"

text \<open>Each warning detail is taken in its \<open>str\<close> rendering.\<close>

definition count_issues :: "string list \<Rightarrow> string \<Rightarrow> int" where
  "count_issues wl keyword = int (length (filter (\<lambda>w. contains keyword (lower w)) wl))"

definition total_days :: int where
  "total_days = 14"

definition coverage :: "string list \<Rightarrow> int \<Rightarrow> rat" where
  "coverage wl issues =
     (if wl = [] then 100
      else max 0 (of_int (total_days - issues) / of_int total_days * 100))"

record coverage_panel =
  lunch_coverage_pct :: rat
  dinner_coverage_pct :: rat
  opening_coverage_pct :: rat
  closing_coverage_pct :: rat

definition coverage_quality :: "session \<Rightarrow> coverage_panel" where
  "coverage_quality s =
     (let wl = warnings_list (session_results s);
          lunch_issues = count_issues wl ''lunch peak'';
          dinner_issues = count_issues wl ''dinner peak'';
          opening_issues = count_issues wl ''opening'';
          closing_issues = count_issues wl ''closing''
      in \<lparr>lunch_coverage_pct = coverage wl lunch_issues,
          dinner_coverage_pct = coverage wl dinner_issues,
          opening_coverage_pct = coverage wl opening_issues,
          closing_coverage_pct = coverage wl closing_issues\<rparr>)"

section \<open>The scheduling core\<close>

text \<open>
  The source of the core agents (ComplianceValidator, ConflictResolver, Coordinator) is not
  part of the files at hand; only the call \<open>coordinator.execute(..., max_iterations)\<close> of
  the dashboard and the explainer's reading of their results are. The definitions of this
  section are modelled from the spec.
\<close>

subsection \<open>Fairness\<close>

text \<open>Modelled from the spec: the total hours of every scheduled employee, that is of
  every employee with an assignment.\<close>

definition employee_hours :: "Schedule \<Rightarrow> rat list" where
  "employee_hours s =
     map (\<lambda>e. sum_list (map (\<lambda>a. hours (shift a)) (get_assignments_by_employee s e)))
       (remdups (map employee_id (assignments s)))"

definition abs_diff_sum :: "rat list \<Rightarrow> rat" where
  "abs_diff_sum xs = sum_list (map (\<lambda>x. sum_list (map (\<lambda>y. \<bar>x - y\<bar>) xs)) xs)"

text \<open>Modelled from the spec: the Gini coefficient of the per-employee total-hours
  distribution, which the validator computes and whose source is missing. It is the mean
  absolute difference of all pairs over twice the mean, and 0 for an empty or all-zero
  distribution.\<close>

definition gini :: "rat list \<Rightarrow> rat" where
  "gini xs =
     (if xs = [] \<or> sum_list xs = 0 then 0
      else abs_diff_sum xs / (2 * of_nat (length xs) * sum_list xs))"

subsection \<open>ComplianceValidator\<close>

datatype finding = Hard Violation | Soft Violation

fun hard_findings :: "finding list \<Rightarrow> Violation list" where
  "hard_findings [] = []"
| "hard_findings (Hard v # fs) = v # hard_findings fs"
| "hard_findings (Soft w # fs) = hard_findings fs"

fun soft_findings :: "finding list \<Rightarrow> Violation list" where
  "soft_findings [] = []"
| "soft_findings (Hard v # fs) = soft_findings fs"
| "soft_findings (Soft w # fs) = w # soft_findings fs"

text \<open>
  Modelled from the spec: what the spec leaves open of the core agents. The rule checks of
  the validator, the penalty of a violation and of a warning, the remediation strategies of
  the resolver (a strategy gives the mutated schedule, or nothing when it does not apply),
  the approval request made of an open violation, and the forecaster and the matcher.
\<close>

record DemandTarget =
  target_date :: date
  time_block :: string
  target_station :: string
  required :: nat

record policy =
  rules :: "(Schedule \<Rightarrow> Employee list \<Rightarrow> finding list) list"
  violation_penalty :: "Violation \<Rightarrow> rat"
  warning_penalty :: "Violation \<Rightarrow> rat"
  strategies :: "(Violation \<Rightarrow> Schedule \<Rightarrow> Schedule option) list"
  to_approval :: "Violation \<Rightarrow> ApprovalRequest"
  forecast :: "Store \<Rightarrow> date \<Rightarrow> date \<Rightarrow> DemandTarget list"
  match :: "DemandTarget list \<Rightarrow> Employee list \<Rightarrow> Store \<Rightarrow> Schedule"

text \<open>Modelled from the spec: the validator runs the rule checks in order, starts the
  score at 100, subtracts the penalties and clamps to [0, 100], reports the Gini
  coefficient beside the score, and sets the flag from the violation list.\<close>

definition validate :: "policy \<Rightarrow> Employee list \<Rightarrow> Schedule \<Rightarrow> ComplianceResult" where
  "validate P employees s =
     (let fs = concat (map (\<lambda>rule. rule s employees) (rules P));
          vs = hard_findings fs;
          ws = soft_findings fs;
          raw = 100 - sum_list (map (violation_penalty P) vs)
                    - sum_list (map (warning_penalty P) ws)
      in \<lparr>violations = vs,
          warnings = ws,
          pending_approvals = [],
          score = max 0 (min 100 raw),
          gini_coefficient = gini (employee_hours s),
          is_compliant = (vs = [])\<rparr>)"

text \<open>Modelled from the spec: every violation still open at termination becomes an
  approval request.\<close>

definition escalate :: "policy \<Rightarrow> ComplianceResult \<Rightarrow> ComplianceResult" where
  "escalate P r = r\<lparr>pending_approvals := map (to_approval P) (violations r)\<rparr>"

subsection \<open>ConflictResolver\<close>

text \<open>
  Modelled from the spec: the strategies are tried in order on one issue. After a mutation
  the validator is run again; a mutation that did not strictly improve the score is rolled
  back, that is the next strategy starts from the schedule as it was. The result is the
  accepted schedule, if any.
\<close>

fun attempt ::
  "policy \<Rightarrow> Employee list \<Rightarrow> (Violation \<Rightarrow> Schedule \<Rightarrow> Schedule option) list \<Rightarrow> Violation
     \<Rightarrow> Schedule \<Rightarrow> Schedule option" where
  "attempt P employees [] issue s = None"
| "attempt P employees (strategy # rest) issue s =
     (case strategy issue s of
        None \<Rightarrow> attempt P employees rest issue s
      | Some s' \<Rightarrow>
          if score (validate P employees s) < score (validate P employees s') then Some s'
          else attempt P employees rest issue s)"

text \<open>Modelled from the spec: one pass over the issues. It returns the schedule and the
  accepted states in the order of their acceptance.\<close>

fun sweep_issues ::
  "policy \<Rightarrow> Employee list \<Rightarrow> Violation list \<Rightarrow> Schedule \<Rightarrow> Schedule list
     \<Rightarrow> Schedule \<times> Schedule list" where
  "sweep_issues P employees [] s accepted = (s, accepted)"
| "sweep_issues P employees (issue # issues) s accepted =
     (case attempt P employees (strategies P) issue s of
        None \<Rightarrow> sweep_issues P employees issues s accepted
      | Some s' \<Rightarrow> sweep_issues P employees issues s' (accepted @ [s']))"

text \<open>Modelled from the spec: a full sweep, the violations first and then the warnings of
  the result at hand.\<close>

definition sweep :: "policy \<Rightarrow> Employee list \<Rightarrow> Schedule \<Rightarrow> Schedule \<times> Schedule list" where
  "sweep P employees s =
     (let r = validate P employees s
      in sweep_issues P employees (violations r @ warnings r) s [])"

subsection \<open>Coordinator\<close>

datatype phase = Init | Forecasting | Matching | Validating | Resolving | Finalized | Degraded

record run_input =
  loaded :: "(Employee list \<times> Store) option"
  from_date :: date
  to_date :: date
  iteration_budget :: nat

record coordinator =
  phase :: phase
  roster :: "Employee list"
  the_store :: "Store option"
  demand :: "DemandTarget list"
  current :: Schedule
  result :: "ComplianceResult option"
  iteration :: nat
  improved :: bool
  accepted_states :: "Schedule list"

definition initial :: coordinator where
  "initial =
     \<lparr>phase = Init, roster = [], the_store = None, demand = [],
      current = \<lparr>assignments = [], first_date = 0, last_date = 0\<rparr>,
      result = None, iteration = 0, improved = False, accepted_states = []\<rparr>"

text \<open>
  Modelled from the spec: one transition of the coordinator's state machine
  \<open>Init \<rightarrow> Forecasting \<rightarrow> Matching \<rightarrow> Validating \<rightarrow> Resolving \<rightleftharpoons> Validating \<rightarrow> Finalized\<close>.
  A failed data load leads to the degraded terminal state. Validating computes the result
  afresh and leaves the loop when the schedule is compliant, when the last sweep accepted
  no mutation, or when the budget is used up; the violations then still open are escalated.
  Resolving is one full sweep of the resolver.
\<close>

definition step :: "policy \<Rightarrow> run_input \<Rightarrow> coordinator \<Rightarrow> coordinator" where
  "step P inp c =
     (case phase c of
        Init \<Rightarrow>
          (case loaded inp of
             None \<Rightarrow> c\<lparr>phase := Degraded\<rparr>
           | Some (employees, store) \<Rightarrow>
               c\<lparr>phase := Forecasting, roster := employees, the_store := Some store\<rparr>)
      | Forecasting \<Rightarrow>
          (case the_store c of
             None \<Rightarrow> c\<lparr>phase := Degraded\<rparr>
           | Some store \<Rightarrow>
               c\<lparr>phase := Matching,
                 demand := forecast P store (from_date inp) (to_date inp)\<rparr>)
      | Matching \<Rightarrow>
          (case the_store c of
             None \<Rightarrow> c\<lparr>phase := Degraded\<rparr>
           | Some store \<Rightarrow>
               c\<lparr>phase := Validating,
                 current := match P (demand c) (roster c) store\<rparr>)
      | Validating \<Rightarrow>
          (let r = validate P (roster c) (current c)
           in if is_compliant r \<or> (0 < iteration c \<and> \<not> improved c)
                 \<or> iteration_budget inp \<le> iteration c
              then c\<lparr>phase := Finalized, result := Some (escalate P r)\<rparr>
              else c\<lparr>phase := Resolving, result := Some r\<rparr>)
      | Resolving \<Rightarrow>
          (case sweep P (roster c) (current c) of
             (s', acc) \<Rightarrow>
               c\<lparr>phase := Validating, current := s', iteration := Suc (iteration c),
                 improved := (acc \<noteq> []), accepted_states := accepted_states c @ acc\<rparr>)
      | Finalized \<Rightarrow> c
      | Degraded \<Rightarrow> c)"

definition terminal :: "coordinator \<Rightarrow> bool" where
  "terminal c = (phase c = Finalized \<or> phase c = Degraded)"

text \<open>The distance of a state from a terminal one, in transitions at most.\<close>

definition remaining :: "run_input \<Rightarrow> coordinator \<Rightarrow> nat" where
  "remaining inp c =
     (case phase c of
        Init \<Rightarrow> 2 * iteration_budget inp + 4
      | Forecasting \<Rightarrow> 2 * iteration_budget inp + 3
      | Matching \<Rightarrow> 2 * iteration_budget inp + 2
      | Validating \<Rightarrow> 2 * (iteration_budget inp - iteration c) + 1
      | Resolving \<Rightarrow> 2 * (iteration_budget inp - Suc (iteration c)) + 2
      | Finalized \<Rightarrow> 0
      | Degraded \<Rightarrow> 0)"

text \<open>Modelled from the spec: a run of the coordinator, transitions up to a terminal
  state.\<close>

function run :: "policy \<Rightarrow> run_input \<Rightarrow> coordinator \<Rightarrow> coordinator" where
  "run P inp c = (if terminal c then c else run P inp (step P inp c))"
  by pat_completeness auto
termination
proof (relation "measure (\<lambda>(P, inp, c). remaining inp c)")
  show "wf (measure (\<lambda>(P, inp, c). remaining inp c))"
    by simp
next
  fix P :: policy and inp :: run_input and c :: coordinator
  assume "\<not> terminal c"
  then have "remaining inp (step P inp c) < remaining inp c"
    by (cases "phase c")
       (auto simp: terminal_def remaining_def step_def Let_def split: option.splits prod.splits)
  then show "((P, inp, step P inp c), (P, inp, c)) \<in> measure (\<lambda>(P, inp, c). remaining inp c)"
    by simp
qed

declare run.simps [simp del]

definition run_schedule :: "policy \<Rightarrow> run_input \<Rightarrow> coordinator" where
  "run_schedule P inp = run P inp initial"

section \<open>Properties of the dashboard\<close>

lemma count_issues_nonneg: "0 \<le> count_issues wl keyword"
  by (simp add: count_issues_def)

lemma coverage_lower: "0 \<le> coverage wl issues"
  by (simp add: coverage_def)

lemma coverage_upper:
  assumes "0 \<le> issues"
  shows "coverage wl issues \<le> 100"
proof (cases "wl = []")
  case True
  then show ?thesis by (simp add: coverage_def)
next
  case False
  have "(of_int (14 - issues) :: rat) \<le> 14"
    using assms by simp
  then have "(of_int (14 - issues) :: rat) / 14 * 100 \<le> 100"
    by simp
  with False show ?thesis
    by (simp add: coverage_def total_days_def)
qed

lemma coverage_quality_dates:
  "coverage_quality (s\<lparr>start_date := d1, end_date := d2\<rparr>) = coverage_quality s"
  by (simp add: coverage_quality_def)

text \<open>
  C9. Whatever the results are, the compliance verification panel shows the five checks
  (Fair Work Act, 10-hour rest, maximum hours, skill matching, minimum staffing), each with
  the passed icon and no warning class: the passed flag of every check is the constant
  True, so the panel is the same for any two results, whatever their violation counts.
\<close>

theorem compliance_panel_constant:
  "map check_name (compliance_panel res) =
     [''Australian Fair Work Act'', ''10-Hour Rest Periods'', ''Maximum Hours Limits'',
      ''Skill Matching'', ''Minimum Staffing'']
   \<and> map item_icon (compliance_panel res) = replicate 5 Passed_icon
   \<and> map bg_class (compliance_panel res) = replicate 5 []
   \<and> map (fst \<circ> snd) compliance_checks = replicate 5 True
   \<and> compliance_panel res = compliance_panel res'"
  by (simp add: compliance_panel_def compliance_checks_def render_check_def
      numeral_eq_Suc)

text \<open>
  C10. The coverage percentage is exactly 100 when the list of warning details is empty,
  and max(0, (14 - issues) / 14 * 100) otherwise, the number of days being the constant 14
  whatever start and end dates are selected. For a non-negative issue count, and so for
  the four counts the panel computes, the percentage lies between 0 and 100.
\<close>

theorem coverage_percentage:
  "coverage [] issues = 100
   \<and> coverage (w # ws) issues = max 0 ((14 - of_int issues) / 14 * 100)
   \<and> 0 \<le> coverage wl (int n) \<and> coverage wl (int n) \<le> 100
   \<and> 0 \<le> coverage wl (count_issues wl keyword)
   \<and> coverage wl (count_issues wl keyword) \<le> 100
   \<and> coverage_quality (s\<lparr>start_date := d1, end_date := d2\<rparr>) = coverage_quality s"
proof -
  have "coverage (w # ws) issues = max 0 ((14 - of_int issues) / 14 * 100)"
    by (simp add: coverage_def total_days_def)
  moreover have "coverage [] issues = 100"
    by (simp add: coverage_def)
  moreover have "coverage wl (int n) \<le> 100"
    by (rule coverage_upper) simp
  moreover have "coverage wl (count_issues wl keyword) \<le> 100"
    by (rule coverage_upper) (rule count_issues_nonneg)
  ultimately show ?thesis
    by (simp add: coverage_lower coverage_quality_dates)
qed

end
